theory Spec2Isabelle
  imports Main "HOL-Library.AList"
begin

section \<open>JavaScript values\<close>

text \<open>
  The values that cross the SDK's boundary: error metadata (\<^verbatim>\<open>Record<string, unknown>\<close>),
  serialized envelopes and the inputs handed to a schema. An object is an association list
  in property order with one entry per key. A \<^verbatim>\<open>number\<close> is modelled by an integer
  (epoch milliseconds, seconds, durations); among the integers the only falsy number is 0,
  and NaN and fractions are outside the model. A string is the list of its code
  units, each below 256 (the Latin-1 range of UTF-16); strings with higher code units are
  outside the model.
\<close>

datatype js_value =
    JUndefined
  | JNull
  | JBool bool
  | JNum int
  | JStr string
  | JArr "js_value list"
  | JObj "(string \<times> js_value) list"

type_synonym js_object = "(string \<times> js_value) list"

text \<open>The own keys of an object, in property order (\<^verbatim>\<open>Object.keys\<close>, the \<^verbatim>\<open>in\<close> test).\<close>

fun js_keys :: "js_value \<Rightarrow> string list" where
  "js_keys (JObj kvs) = map fst kvs"
| "js_keys _ = []"

text \<open>A property read \<^verbatim>\<open>o[k]\<close>: a key the object does not have reads as \<^verbatim>\<open>undefined\<close>.\<close>

definition js_get :: "js_object \<Rightarrow> string \<Rightarrow> js_value" where
  "js_get kvs k = (case map_of kvs k of None \<Rightarrow> JUndefined | Some v \<Rightarrow> v)"

section \<open>errors.ts: the error taxonomy\<close>

datatype ErrorCode =
    INVALID_INPUT
  | MISSING_REQUIRED_FIELD
  | INVALID_FORMAT
  | MISSING_SECRET
  | INVALID_SECRET
  | UNAUTHORIZED
  | API_ERROR
  | NETWORK_ERROR
  | TIMEOUT
  | NOT_FOUND
  | RATE_LIMIT_EXCEEDED
  | QUOTA_EXCEEDED
  | INTERNAL_ERROR
  | NOT_IMPLEMENTED
  | CONFIGURATION_ERROR

text \<open>The numeric value of each member of the enum.\<close>

fun ErrorCode_value :: "ErrorCode \<Rightarrow> int" where
  "ErrorCode_value INVALID_INPUT = 1001"
| "ErrorCode_value MISSING_REQUIRED_FIELD = 1002"
| "ErrorCode_value INVALID_FORMAT = 1003"
| "ErrorCode_value MISSING_SECRET = 2001"
| "ErrorCode_value INVALID_SECRET = 2002"
| "ErrorCode_value UNAUTHORIZED = 2003"
| "ErrorCode_value API_ERROR = 3001"
| "ErrorCode_value NETWORK_ERROR = 3002"
| "ErrorCode_value TIMEOUT = 3003"
| "ErrorCode_value NOT_FOUND = 3004"
| "ErrorCode_value RATE_LIMIT_EXCEEDED = 4001"
| "ErrorCode_value QUOTA_EXCEEDED = 4002"
| "ErrorCode_value INTERNAL_ERROR = 5001"
| "ErrorCode_value NOT_IMPLEMENTED = 5002"
| "ErrorCode_value CONFIGURATION_ERROR = 5003"

text \<open>
  \<^verbatim>\<open>class ModuleError extends Error\<close>: the fields an instance carries. An omitted
  \<^verbatim>\<open>metadata\<close> argument leaves the field \<^verbatim>\<open>undefined\<close>, here \<open>None\<close>;
  \<open>Some []\<close> is the empty object.
\<close>

record ModuleError =
  name :: string
  code :: ErrorCode
  message :: string
  metadata :: "js_object option"

text \<open>\<^verbatim>\<open>new ModuleError(code, message, metadata?)\<close>.\<close>

definition new_ModuleError :: "ErrorCode \<Rightarrow> string \<Rightarrow> js_object option \<Rightarrow> ModuleError" where
  "new_ModuleError c m md = \<lparr>name = ''ModuleError'', code = c, message = m, metadata = md\<rparr>"

text \<open>
  \<^verbatim>\<open>toJSON()\<close>: the object literal with the conditional spread
  \<^verbatim>\<open>...(this.metadata && { metadata: this.metadata })\<close>. An object is truthy, the empty
  one too, so the spread adds the key exactly when the field is not \<^verbatim>\<open>undefined\<close>.
\<close>

definition toJSON :: "ModuleError \<Rightarrow> js_value" where
  "toJSON e =
     JObj ([(''success'', JBool False),
            (''error'', JStr (message e)),
            (''code'', JNum (ErrorCode_value (code e)))]
           @ (case metadata e of None \<Rightarrow> [] | Some md \<Rightarrow> [(''metadata'', JObj md)]))"

text \<open>\<^verbatim>\<open>static missingSecret(secretName)\<close>.\<close>

definition missingSecret :: "string \<Rightarrow> ModuleError" where
  \<open>missingSecret secretName =
     new_ModuleError MISSING_SECRET
       (''Required secret "'' @ secretName @ ''" is not configured'')
       (Some [(''secretName'', JStr secretName)])\<close>

text \<open>
  \<^verbatim>\<open>static timeout(operation, timeoutMs?)\<close>. The third constructor argument is
  \<^verbatim>\<open>timeoutMs ? { timeoutMs } : undefined\<close>: a truthiness test, which an omitted
  argument and the number 0 both fail.
\<close>

definition timeout :: "string \<Rightarrow> int option \<Rightarrow> ModuleError" where
  \<open>timeout operation timeoutMs =
     new_ModuleError TIMEOUT
       (''Operation "'' @ operation @ ''" timed out'')
       (case timeoutMs of
          None \<Rightarrow> None
        | Some t \<Rightarrow> if t \<noteq> 0 then Some [(''timeoutMs'', JNum t)] else None)\<close>

text \<open>\<^verbatim>\<open>static rateLimitError(retryAfter?)\<close>, with the same truthiness test.\<close>

definition rateLimitError :: "int option \<Rightarrow> ModuleError" where
  "rateLimitError retryAfter =
     new_ModuleError RATE_LIMIT_EXCEEDED
       ''Rate limit exceeded''
       (case retryAfter of
          None \<Rightarrow> None
        | Some r \<Rightarrow> if r \<noteq> 0 then Some [(''retryAfter'', JNum r)] else None)"

text \<open>
  What a \<^verbatim>\<open>throw\<close> can carry in this package: a plain \<^verbatim>\<open>Error\<close> with its message, or
  a \<^verbatim>\<open>ModuleError\<close>.
\<close>

datatype thrown =
    Thrown_Error string
  | Thrown_ModuleError ModuleError

section \<open>types.ts and context.ts: the context resolver\<close>

text \<open>
  \<^verbatim>\<open>Partial<ModuleContext>\<close>, the context as mcp-proxy may inject it: every field can be
  missing. \<open>None\<close> is a field that is \<^verbatim>\<open>undefined\<close>.
\<close>

record Partial_ModuleContext =
  userId :: "string option"
  conversationId :: "string option"
  displayName :: "string option"
  timestamp :: "int option"
  requestId :: "string option"
  secrets :: "(string \<rightharpoonup> string) option"

text \<open>
  \<^verbatim>\<open>interface RequestBodyWithContext\<close>. The fields \<open>id_rpc\<close>, \<open>rpc_method\<close> and
  \<open>body_context\<close> are the source's \<^verbatim>\<open>id\<close>, \<^verbatim>\<open>method\<close> and \<^verbatim>\<open>context\<close>.
\<close>

record RequestBodyWithContext =
  jsonrpc :: string
  id_rpc :: "string + int"
  rpc_method :: string
  params :: "js_object option"
  body_context :: "Partial_ModuleContext option"

text \<open>
  \<^verbatim>\<open>interface ModuleContext\<close>. The two optional fields keep their option type; \<open>secrets\<close>
  is the \<^verbatim>\<open>Record<string, string>\<close>: \<open>secrets c k\<close> is the string the mapping itself holds
  under the key \<open>k\<close>, and \<open>None\<close> when it has no such key.
\<close>

record ModuleContext =
  userId :: string
  conversationId :: "string option"
  displayName :: "string option"
  timestamp :: int
  requestId :: string
  secrets :: "string \<rightharpoonup> string"

text \<open>
  \<^verbatim>\<open>DEFAULT_MODULE_CONTEXT\<close>. Its timestamp is \<^verbatim>\<open>Date.now()\<close> at the time the module is
  loaded, the argument here. It has no \<^verbatim>\<open>conversationId\<close>.
\<close>

definition DEFAULT_MODULE_CONTEXT :: "int \<Rightarrow> ModuleContext" where
  "DEFAULT_MODULE_CONTEXT loaded_at =
     \<lparr>userId = ''anonymous'',
      conversationId = None,
      displayName = Some ''Anonymous User'',
      timestamp = loaded_at,
      requestId = ''no-request-id'',
      secrets = Map.empty\<rparr>"

text \<open>
  The two ambient sources \<open>extractContext\<close> reads: the clock, and the generator behind
  \<^verbatim>\<open>crypto.randomUUID()\<close>, a sequence of identifiers of which \<open>drawn\<close> have been handed
  out. Reading the clock leaves the runtime as it is; drawing an identifier advances it.
\<close>

record runtime =
  clock :: int
  uuid_stream :: "nat \<Rightarrow> string"
  drawn :: nat

definition Date_now :: "runtime \<Rightarrow> int \<times> runtime" where
  "Date_now rt = (clock rt, rt)"

definition crypto_randomUUID :: "runtime \<Rightarrow> string \<times> runtime" where
  "crypto_randomUUID rt = (uuid_stream rt (drawn rt), rt\<lparr>drawn := Suc (drawn rt)\<rparr>)"

text \<open>
  \<^verbatim>\<open>extractContext(body)\<close>. Without a context, the defaults are spread and \<^verbatim>\<open>timestamp\<close>
  and \<^verbatim>\<open>requestId\<close> overwritten, the clock read before the identifier is drawn. With a
  context, each field is \<^verbatim>\<open>ctx.f ?? default\<close>, and the right-hand side of \<^verbatim>\<open>??\<close> is
  evaluated only when the field is nullish; \<^verbatim>\<open>conversationId\<close> is copied as it is.
\<close>

definition extractContext ::
    "int \<Rightarrow> RequestBodyWithContext \<Rightarrow> runtime \<Rightarrow> ModuleContext \<times> runtime" where
  "extractContext loaded_at body rt =
     (case body_context body of
        None \<Rightarrow>
          (let (t, rt1) = Date_now rt;
               (u, rt2) = crypto_randomUUID rt1
           in ((DEFAULT_MODULE_CONTEXT loaded_at)\<lparr>timestamp := t, requestId := u\<rparr>, rt2))
      | Some ctx \<Rightarrow>
          (let (t, rt1) = (case Partial_ModuleContext.timestamp ctx of
                             Some t \<Rightarrow> (t, rt)
                           | None \<Rightarrow> Date_now rt);
               (u, rt2) = (case Partial_ModuleContext.requestId ctx of
                             Some u \<Rightarrow> (u, rt1)
                           | None \<Rightarrow> crypto_randomUUID rt1)
           in (\<lparr>userId = (case Partial_ModuleContext.userId ctx of
                             Some x \<Rightarrow> x
                           | None \<Rightarrow> userId (DEFAULT_MODULE_CONTEXT loaded_at)),
                conversationId = Partial_ModuleContext.conversationId ctx,
                displayName = (case Partial_ModuleContext.displayName ctx of
                                 Some d \<Rightarrow> Some d
                               | None \<Rightarrow> displayName (DEFAULT_MODULE_CONTEXT loaded_at)),
                timestamp = t,
                requestId = u,
                secrets = (case Partial_ModuleContext.secrets ctx of
                             Some s \<Rightarrow> s
                           | None \<Rightarrow> Map.empty)\<rparr>,
               rt2)))"

subsection \<open>Property reads\<close>

text \<open>
  The secrets mapping is an ordinary object (an object literal, the result of
  \<^verbatim>\<open>JSON.parse\<close>, the \<^verbatim>\<open>{}\<close> of \<open>extractContext\<close>), so the read \<^verbatim>\<open>secrets[name]\<close> finds
  the properties the object has itself and, for a name it does not have, the members of
  \<^verbatim>\<open>Object.prototype\<close>. These are their names. Each member is a function, and
  \<^verbatim>\<open>__proto__\<close> reads as the prototype object: truthy values that are not strings.
\<close>

definition Object_prototype_names :: "string list" where
  "Object_prototype_names =
     [''constructor'', ''hasOwnProperty'', ''isPrototypeOf'', ''propertyIsEnumerable'',
      ''toLocaleString'', ''toString'', ''valueOf'', ''__proto__'',
      ''__defineGetter__'', ''__defineSetter__'', ''__lookupGetter__'', ''__lookupSetter__'']"

text \<open>
  What a read of the mapping evaluates to when it is not \<^verbatim>\<open>undefined\<close>: the string
  stored under the name, or the inherited member of that name.
\<close>

datatype property =
    Stored string
  | Inherited string

text \<open>The read \<^verbatim>\<open>obj[k]\<close>; \<open>None\<close> is \<^verbatim>\<open>undefined\<close>.\<close>

definition read_property :: "(string \<rightharpoonup> string) \<Rightarrow> string \<Rightarrow> property option" where
  "read_property obj k =
     (case obj k of
        Some v \<Rightarrow> Some (Stored v)
      | None \<Rightarrow> if k \<in> set Object_prototype_names then Some (Inherited k) else None)"

text \<open>Truthiness of what was read: \<^verbatim>\<open>undefined\<close> and the empty string are falsy.\<close>

fun truthy :: "property option \<Rightarrow> bool" where
  "truthy None = False"
| "truthy (Some (Stored v)) = (v \<noteq> '''')"
| "truthy (Some (Inherited m)) = True"

subsection \<open>Calls on a context\<close>

text \<open>
  The context is an object passed by reference. A call on it is a function from the
  context as it is before to the outcome, thrown or returned, and the context as it is
  after. The statements of the two lookups are reads, \<^verbatim>\<open>throw\<close> and \<^verbatim>\<open>return\<close>, put in
  sequence.
\<close>

type_synonym 'a call = "ModuleContext \<Rightarrow> (thrown + 'a) \<times> ModuleContext"

definition reads :: "(ModuleContext \<Rightarrow> 'a) \<Rightarrow> 'a call" where
  "reads f ctx = (Inr (f ctx), ctx)"

definition throws :: "thrown \<Rightarrow> 'a call" where
  "throws e ctx = (Inl e, ctx)"

definition returns :: "'a \<Rightarrow> 'a call" where
  "returns x ctx = (Inr x, ctx)"

definition and_then :: "'a call \<Rightarrow> ('a \<Rightarrow> 'b call) \<Rightarrow> 'b call" where
  "and_then m k ctx =
     (case m ctx of
        (Inl e, ctx') \<Rightarrow> (Inl e, ctx')
      | (Inr x, ctx') \<Rightarrow> k x ctx')"

text \<open>
  \<^verbatim>\<open>getRequiredSecret(context, secretName)\<close>:
  \<^verbatim>\<open>const value = context.secrets[secretName]; if (!value) { throw new Error(...) } return value;\<close>
  What is returned is the value read, whatever it is.
\<close>

definition getRequiredSecret ::
    "ModuleContext \<Rightarrow> string \<Rightarrow> (thrown + property option) \<times> ModuleContext" where
  \<open>getRequiredSecret ctx secretName =
     and_then (reads (\<lambda>c. read_property (secrets c) secretName))
       (\<lambda>value.
          if \<not> truthy value
          then throws (Thrown_Error (''Required secret "'' @ secretName @ ''" is not configured''))
          else returns value)
       ctx\<close>


subsection \<open>Requests and contexts of the test suite\<close>

text \<open>A generator whose identifiers are pairwise different, and a runtime that uses it.\<close>

fun counter_uuid :: "nat \<Rightarrow> string" where
  "counter_uuid n = ''req-'' @ replicate n (CHR ''i'')"

definition test_runtime :: runtime where
  "test_runtime = \<lparr>clock = 1704067200000, uuid_stream = counter_uuid, drawn = 0\<rparr>"

text \<open>The request of the test \<^verbatim>\<open>should use defaults when context is missing\<close>.\<close>

definition body_without_context :: RequestBodyWithContext where
  "body_without_context =
     \<lparr>jsonrpc = ''2.0'', id_rpc = Inr 1, rpc_method = ''tools/call'',
      params = Some [(''name'', JStr ''test''), (''arguments'', JObj [])],
      body_context = None\<rparr>"

text \<open>The request of the test \<^verbatim>\<open>should use defaults for missing fields in partial context\<close>.\<close>

definition body_partial_context :: RequestBodyWithContext where
  "body_partial_context =
     \<lparr>jsonrpc = ''2.0'', id_rpc = Inr 1, rpc_method = ''tools/call'', params = None,
      body_context =
        Some \<lparr>Partial_ModuleContext.userId = Some ''user_partial'',
              Partial_ModuleContext.conversationId = None,
              Partial_ModuleContext.displayName = None,
              Partial_ModuleContext.timestamp = None,
              Partial_ModuleContext.requestId = None,
              Partial_ModuleContext.secrets = None\<rparr>\<rparr>"

text \<open>The contexts of the \<^verbatim>\<open>getRequiredSecret\<close> tests, which differ in their secrets.\<close>

definition test_context :: "(string \<rightharpoonup> string) \<Rightarrow> ModuleContext" where
  "test_context s =
     \<lparr>userId = ''user_123'', conversationId = None, displayName = None,
      timestamp = 1704067200000, requestId = ''req_123'', secrets = s\<rparr>"

section \<open>The schema engine\<close>

text \<open>
  The validators and the response schemas are built from the combinators of the zod
  library, which is not part of the sources. A schema is modelled by its \<^verbatim>\<open>safeParse\<close>:
  a function from the input to the parsed output, or to \<open>None\<close> when the input is
  rejected. The issues a rejection carries are not modelled.
\<close>

type_synonym schema = "js_value \<Rightarrow> js_value option"

text \<open>
  Modelled from the spec: \<^verbatim>\<open>z.string()\<close> of the zod library, the schema of a field that
  must be a string. It accepts a string, which it returns, and nothing else.
\<close>

definition z_string :: schema where
  "z_string v = (case v of JStr s \<Rightarrow> Some (JStr s) | _ \<Rightarrow> None)"

text \<open>
  Modelled from the spec: \<^verbatim>\<open>z.string().email()\<close> of the zod library, which accepts the
  strings that are valid email addresses by the engine's email grammar. The grammar itself
  is the parameter \<open>is_email\<close>.
\<close>

definition z_string_email :: "(string \<Rightarrow> bool) \<Rightarrow> schema" where
  "z_string_email is_email v =
     (case v of JStr s \<Rightarrow> if is_email s then Some (JStr s) else None | _ \<Rightarrow> None)"

text \<open>
  Modelled from the spec: \<^verbatim>\<open>z.string().transform(f)\<close> of the zod library, a transform
  unit: it accepts a string and yields \<open>f\<close> of it.
\<close>

definition z_string_transform :: "(string \<Rightarrow> js_value) \<Rightarrow> schema" where
  "z_string_transform f v = (case v of JStr s \<Rightarrow> Some (f s) | _ \<Rightarrow> None)"

text \<open>
  Modelled from the spec: \<^verbatim>\<open>z.literal(x)\<close> of the zod library, the schema of a field that
  must be literally \<open>x\<close>.
\<close>

definition z_literal :: "js_value \<Rightarrow> schema" where
  "z_literal lit v = (if v = lit then Some v else None)"

text \<open>
  Modelled from the spec: \<^verbatim>\<open>z.array(element)\<close> of the zod library, the schema of a
  sequence: it accepts an array all of whose elements the element schema accepts, and
  yields the array of their outputs.
\<close>

definition z_array :: "schema \<Rightarrow> schema" where
  "z_array element v =
     (case v of JArr xs \<Rightarrow> map_option JArr (those (map element xs)) | _ \<Rightarrow> None)"

text \<open>
  Modelled from the spec: \<^verbatim>\<open>z.object(shape)\<close> of the zod library, the schema that
  requires all fields of the shape. Each key of the shape is read from the input (a
  missing key reads as \<^verbatim>\<open>undefined\<close>) and parsed by the key's schema; the input is
  rejected when one of them is. Keys outside the shape are dropped from the output, and a
  key whose output is \<^verbatim>\<open>undefined\<close> is set only when the input had it.
\<close>

definition z_object :: "(string \<times> schema) list \<Rightarrow> schema" where
  "z_object shape v =
     (case v of
        JObj data \<Rightarrow>
          map_option
            (\<lambda>pairs. JObj (filter (\<lambda>(k, out). out \<noteq> JUndefined \<or> k \<in> set (map fst data)) pairs))
            (those (map (\<lambda>(k, sch). map_option (Pair k) (sch (js_get data k))) shape))
      | _ \<Rightarrow> None)"

text \<open>
  Modelled from the spec: \<^verbatim>\<open>z.union(options)\<close> of the zod library, the union schema. The
  options are tried in order and the first that accepts the input gives the output.
\<close>

fun z_union :: "schema list \<Rightarrow> schema" where
  "z_union [] v = None"
| "z_union (s # ss) v = (case s v of Some out \<Rightarrow> Some out | None \<Rightarrow> z_union ss v)"

text \<open>Modelled from the spec: \<^verbatim>\<open>a.or(b)\<close> of the zod library, the union of two schemas.\<close>

definition z_or :: "schema \<Rightarrow> schema \<Rightarrow> schema" where
  "z_or a b = z_union [a, b]"

text \<open>
  Modelled from the spec: \<^verbatim>\<open>a.pipe(b)\<close> of the zod library, the composition of two units:
  the output of \<open>a\<close> is the input of \<open>b\<close>.
\<close>

definition z_pipe :: "schema \<Rightarrow> schema \<Rightarrow> schema" where
  "z_pipe a b v = (case a v of None \<Rightarrow> None | Some out \<Rightarrow> b out)"

section \<open>The language's own operations\<close>

text \<open>
  An object literal \<^verbatim>\<open>{...base, ...props}\<close>: the properties of \<open>props\<close> are assigned in
  order; a key the object has already keeps its place and takes the new value, a new key
  goes to the end.
\<close>

definition js_spread :: "('k \<times> 'v) list \<Rightarrow> ('k \<times> 'v) list \<Rightarrow> ('k \<times> 'v) list" where
  "js_spread base props = fold (\<lambda>(k, v). AList.update k v) props base"

text \<open>
  \<^verbatim>\<open>s.split(sep)\<close> for a separator of one character: the segments between the
  occurrences of the separator, the empty ones too; the empty string has the one segment
  \<^verbatim>\<open>""\<close>.
\<close>

fun String_split :: "char \<Rightarrow> string \<Rightarrow> string list" where
  "String_split sep [] = [[]]"
| "String_split sep (c # cs) =
     (if c = sep then [] # String_split sep cs
      else (case String_split sep cs of
              seg # segs \<Rightarrow> (c # seg) # segs
            | [] \<Rightarrow> [[c]]))"

text \<open>
  The white space and line terminators that \<^verbatim>\<open>trim()\<close> strips, among the code units
  below 256: TAB, LF, VT, FF, CR, the space and the no-break space U+00A0.
\<close>

definition is_WhiteSpace :: "char \<Rightarrow> bool" where
  "is_WhiteSpace c \<longleftrightarrow>
     c = CHR 0x09 \<or> c = CHR 0x0A \<or> c = CHR 0x0B \<or> c = CHR 0x0C \<or> c = CHR 0x0D
     \<or> c = CHR '' '' \<or> c = CHR 0xA0"

text \<open>\<^verbatim>\<open>s.trim()\<close>.\<close>

definition String_trim :: "string \<Rightarrow> string" where
  "String_trim s = rev (dropWhile is_WhiteSpace (rev (dropWhile is_WhiteSpace s)))"

section \<open>validators.ts and schemas.ts\<close>

text \<open>
  \<^verbatim>\<open>validators.emailList()\<close>:
  \<^verbatim>\<open>z.array(z.string().email()).or(z.string().transform(s => s.split(',').map(e => e.trim())).pipe(z.array(z.string().email())))\<close>.
\<close>

definition emailList :: "(string \<Rightarrow> bool) \<Rightarrow> schema" where
  "emailList is_email =
     z_or (z_array (z_string_email is_email))
          (z_pipe (z_string_transform
                     (\<lambda>s. JArr (map (\<lambda>e. JStr (String_trim e)) (String_split (CHR '','') s))))
                  (z_array (z_string_email is_email)))"

text \<open>
  \<^verbatim>\<open>SuccessResponseSchema(dataSchema)\<close>; the argument here is \<^verbatim>\<open>dataSchema.shape\<close>. In the
  first object the shape is spread after the \<^verbatim>\<open>success\<close> literal.
\<close>

definition SuccessResponseSchema :: "(string \<times> schema) list \<Rightarrow> schema" where
  "SuccessResponseSchema shape =
     z_union
       [z_object (js_spread [(''success'', z_literal (JBool True))] shape),
        z_object [(''success'', z_literal (JBool False)), (''error'', z_string)]]"

text \<open>The payload shape of the schema tests: \<^verbatim>\<open>{messageId: z.string(), sentAt: z.string()}\<close>.\<close>

definition emailResponse_shape :: "(string \<times> schema) list" where
  "emailResponse_shape = [(''messageId'', z_string), (''sentAt'', z_string)]"

section \<open>Properties of the error taxonomy\<close>

text \<open>
  Claim C3, as amended. For every operation string, \<open>timeout\<close> produces code TIMEOUT and
  the message \<^verbatim>\<open>Operation "{operation}" timed out\<close>; for every given timeoutMs other
  than 0 the metadata is \<^verbatim>\<open>{timeoutMs}\<close>, and when timeoutMs is omitted the metadata is
  absent. Likewise \<open>rateLimitError\<close> produces code RATE_LIMIT_EXCEEDED and the fixed
  message \<^verbatim>\<open>Rate limit exceeded\<close>, with metadata \<^verbatim>\<open>{retryAfter}\<close> for every given
  retryAfter other than 0 and no metadata when it is omitted.
\<close>

theorem timeout_rateLimitError_nonzero:
  \<open>code (timeout operation t) = TIMEOUT
   \<and> message (timeout operation t) = ''Operation "'' @ operation @ ''" timed out''
   \<and> (\<forall>n. t = Some n \<and> n \<noteq> 0 \<longrightarrow>
          metadata (timeout operation t) = Some [(''timeoutMs'', JNum n)])
   \<and> (t = None \<longrightarrow> metadata (timeout operation t) = None)
   \<and> code (rateLimitError r) = RATE_LIMIT_EXCEEDED
   \<and> message (rateLimitError r) = ''Rate limit exceeded''
   \<and> (\<forall>n. r = Some n \<and> n \<noteq> 0 \<longrightarrow>
          metadata (rateLimitError r) = Some [(''retryAfter'', JNum n)])
   \<and> (r = None \<longrightarrow> metadata (rateLimitError r) = None)\<close>
  by (simp add: timeout_def rateLimitError_def new_ModuleError_def)

theorem timeout_rateLimitError_nonzero_witness:
  \<open>metadata (timeout ''API call'' (Some 30000)) = Some [(''timeoutMs'', JNum 30000)]
   \<and> metadata (timeout ''API call'' None) = None
   \<and> metadata (rateLimitError (Some 60)) = Some [(''retryAfter'', JNum 60)]
   \<and> metadata (rateLimitError None) = None\<close>
  using timeout_rateLimitError_nonzero [of "''API call''" "Some 30000" "Some 60"]
        timeout_rateLimitError_nonzero [of "''API call''" None None]
  by simp

text \<open>
  The claim as first stated includes a given 0: there the truthiness test fails and the
  metadata is absent, not \<^verbatim>\<open>{timeoutMs: 0}\<close>.
\<close>

theorem timeout_zero_counterexample:
  "metadata (timeout ''API call'' (Some 0)) \<noteq> Some [(''timeoutMs'', JNum 0)]"
  by (simp add: timeout_def new_ModuleError_def)

text \<open>
  Claim C5. The serialization of an error built from code \<open>c\<close>, message \<open>m\<close> and optional
  metadata \<open>md\<close> is exactly \<^verbatim>\<open>{success: false, error: m, code: c}\<close> when no metadata was
  given, and that object followed by \<^verbatim>\<open>metadata\<close>, holding the very metadata supplied,
  when it was given; the key \<^verbatim>\<open>metadata\<close> is among the keys of the result if and only
  if metadata was given (so it is omitted, not set to null, when absent).
\<close>

theorem toJSON_metadata_key_iff_provided:
  "toJSON (new_ModuleError c m None) =
     JObj [(''success'', JBool False), (''error'', JStr m), (''code'', JNum (ErrorCode_value c))]
   \<and> toJSON (new_ModuleError c m (Some d)) =
     JObj [(''success'', JBool False), (''error'', JStr m), (''code'', JNum (ErrorCode_value c)),
           (''metadata'', JObj d)]
   \<and> (''metadata'' \<in> set (js_keys (toJSON (new_ModuleError c m md))) \<longleftrightarrow> md \<noteq> None)"
  by (cases md) (simp_all add: toJSON_def new_ModuleError_def)

section \<open>Properties of the context resolver\<close>

lemma inj_counter_uuid: "inj counter_uuid"
  by (auto simp: inj_def dest: arg_cong [where f = length])

lemma extractContext_no_context:
  "body_context body = None \<Longrightarrow>
   extractContext loaded_at body rt =
     (\<lparr>userId = ''anonymous'', conversationId = None, displayName = Some ''Anonymous User'',
       timestamp = clock rt, requestId = uuid_stream rt (drawn rt), secrets = Map.empty\<rparr>,
      rt\<lparr>drawn := Suc (drawn rt)\<rparr>)"
  by (simp add: extractContext_def DEFAULT_MODULE_CONTEXT_def crypto_randomUUID_def Date_now_def)

lemma extractContext_fields:
  assumes "body_context body = Some ctx"
  shows "userId (fst (extractContext loaded_at body rt)) =
           (case Partial_ModuleContext.userId ctx of None \<Rightarrow> ''anonymous'' | Some u \<Rightarrow> u)"
    and "conversationId (fst (extractContext loaded_at body rt)) =
           Partial_ModuleContext.conversationId ctx"
    and "displayName (fst (extractContext loaded_at body rt)) =
           (case Partial_ModuleContext.displayName ctx of
              None \<Rightarrow> Some ''Anonymous User'' | Some d \<Rightarrow> Some d)"
    and "timestamp (fst (extractContext loaded_at body rt)) =
           (case Partial_ModuleContext.timestamp ctx of None \<Rightarrow> clock rt | Some t \<Rightarrow> t)"
    and "requestId (fst (extractContext loaded_at body rt)) =
           (case Partial_ModuleContext.requestId ctx of
              None \<Rightarrow> uuid_stream rt (drawn rt) | Some i \<Rightarrow> i)"
    and "secrets (fst (extractContext loaded_at body rt)) =
           (case Partial_ModuleContext.secrets ctx of None \<Rightarrow> Map.empty | Some s \<Rightarrow> s)"
  using assms
  by (simp_all add: extractContext_def DEFAULT_MODULE_CONTEXT_def crypto_randomUUID_def
      Date_now_def split: option.splits prod.splits)

text \<open>An identifier is drawn exactly when the request supplies none.\<close>

lemma extractContext_runtime:
  "snd (extractContext loaded_at body rt) =
     (if (case body_context body of None \<Rightarrow> True
          | Some ctx \<Rightarrow> Partial_ModuleContext.requestId ctx = None)
      then rt\<lparr>drawn := Suc (drawn rt)\<rparr> else rt)"
  by (simp add: extractContext_def DEFAULT_MODULE_CONTEXT_def crypto_randomUUID_def
      Date_now_def split: option.splits prod.splits)

lemma extractContext_requestId_drawn:
  "(case body_context body of None \<Rightarrow> True
    | Some ctx \<Rightarrow> Partial_ModuleContext.requestId ctx = None) \<Longrightarrow>
   requestId (fst (extractContext loaded_at body rt)) = uuid_stream rt (drawn rt)"
proof (cases "body_context body")
  case None
  then show ?thesis by (simp add: extractContext_no_context)
next
  case (Some ctx)
  assume "case body_context body of None \<Rightarrow> True
    | Some ctx \<Rightarrow> Partial_ModuleContext.requestId ctx = None"
  with Some have "Partial_ModuleContext.requestId ctx = None" by simp
  with Some show ?thesis by (simp add: extractContext_fields)
qed

text \<open>
  Claim C1. \<open>getRequiredSecret\<close> is documented to throw a \<^verbatim>\<open>ModuleError\<close> with code
  MISSING_SECRET, the error the \<open>missingSecret\<close> factory builds. On the context of the test
  \<^verbatim>\<open>should throw error when secret is missing\<close> (no secrets, name \<^verbatim>\<open>MISSING_KEY\<close>) the
  value thrown is a plain \<^verbatim>\<open>Error\<close> that carries the message alone: it is not the
  \<^verbatim>\<open>ModuleError\<close> of the factory, and has neither code nor metadata.
\<close>

theorem getRequiredSecret_throws_plain_Error:
  \<open>fst (getRequiredSecret (test_context Map.empty) ''MISSING_KEY'')
     = Inl (Thrown_Error ''Required secret "MISSING_KEY" is not configured'')
   \<and> fst (getRequiredSecret (test_context Map.empty) ''MISSING_KEY'')
     \<noteq> Inl (Thrown_ModuleError (missingSecret ''MISSING_KEY''))
   \<and> message (missingSecret ''MISSING_KEY'')
     = ''Required secret "MISSING_KEY" is not configured''\<close>
  by (simp add: getRequiredSecret_def read_property_def Object_prototype_names_def
      and_then_def reads_def throws_def returns_def test_context_def missingSecret_def
      new_ModuleError_def)

text \<open>
  Claim C2, as amended. For every request whose context is present but supplies neither
  \<^verbatim>\<open>conversationId\<close> nor \<^verbatim>\<open>displayName\<close>, the extracted context has no
  \<^verbatim>\<open>conversationId\<close>, and its \<^verbatim>\<open>displayName\<close> is the default \<^verbatim>\<open>Anonymous User\<close>.
\<close>

theorem extractContext_absent_optionals:
  assumes "body_context body = Some ctx"
    and "Partial_ModuleContext.conversationId ctx = None"
    and "Partial_ModuleContext.displayName ctx = None"
  shows "conversationId (fst (extractContext loaded_at body rt)) = None
       \<and> displayName (fst (extractContext loaded_at body rt)) = Some ''Anonymous User''"
  using assms by (simp add: extractContext_fields)

theorem extractContext_absent_optionals_witness:
  "conversationId (fst (extractContext 0 body_partial_context test_runtime)) = None
   \<and> displayName (fst (extractContext 0 body_partial_context test_runtime))
       = Some ''Anonymous User''"
  by (rule extractContext_absent_optionals [where ctx = "the (body_context body_partial_context)"])
     (simp_all add: body_partial_context_def)

text \<open>
  The claim as first stated has both fields absent. On the request of the test
  \<^verbatim>\<open>should use defaults for missing fields in partial context\<close> the \<^verbatim>\<open>displayName\<close> is
  set.
\<close>

theorem extractContext_displayName_counterexample:
  "\<not> (conversationId (fst (extractContext 0 body_partial_context test_runtime)) = None
      \<and> displayName (fst (extractContext 0 body_partial_context test_runtime)) = None)"
  by (simp add: extractContext_def body_partial_context_def test_runtime_def
      DEFAULT_MODULE_CONTEXT_def crypto_randomUUID_def Date_now_def)




text \<open>
  Claim C6. \<open>extractContext\<close> fills each field on its own. For a request with no context it
  returns the default \<^verbatim>\<open>userId\<close> and \<^verbatim>\<open>displayName\<close>, no \<^verbatim>\<open>conversationId\<close>, no
  secrets, the clock's reading at the call and the identifier drawn at the call. For the
  partial context \<^verbatim>\<open>{userId: u}\<close> it returns \<^verbatim>\<open>userId\<close> \<open>u\<close>, the default
  \<^verbatim>\<open>displayName\<close>, no \<^verbatim>\<open>conversationId\<close>, no secrets, and again the clock's reading and
  a drawn identifier. For any context present, each field of the result is read from the
  same field of the input, or is that field's default. The identifier is fresh: when the
  generator never repeats itself, a later call that draws one gets a different identifier.
\<close>

theorem extractContext_defaults_per_field:
  "(body_context body = None \<longrightarrow>
      extractContext loaded_at body rt =
        (\<lparr>userId = ''anonymous'', conversationId = None, displayName = Some ''Anonymous User'',
          timestamp = clock rt, requestId = uuid_stream rt (drawn rt), secrets = Map.empty\<rparr>,
         rt\<lparr>drawn := Suc (drawn rt)\<rparr>))
   \<and> (body_context body =
        Some \<lparr>Partial_ModuleContext.userId = Some u,
              Partial_ModuleContext.conversationId = None,
              Partial_ModuleContext.displayName = None,
              Partial_ModuleContext.timestamp = None,
              Partial_ModuleContext.requestId = None,
              Partial_ModuleContext.secrets = None\<rparr> \<longrightarrow>
      extractContext loaded_at body rt =
        (\<lparr>userId = u, conversationId = None, displayName = Some ''Anonymous User'',
          timestamp = clock rt, requestId = uuid_stream rt (drawn rt), secrets = Map.empty\<rparr>,
         rt\<lparr>drawn := Suc (drawn rt)\<rparr>))
   \<and> (\<forall>ctx. body_context body = Some ctx \<longrightarrow>
        userId (fst (extractContext loaded_at body rt)) =
          (case Partial_ModuleContext.userId ctx of None \<Rightarrow> ''anonymous'' | Some x \<Rightarrow> x)
        \<and> conversationId (fst (extractContext loaded_at body rt)) =
          Partial_ModuleContext.conversationId ctx
        \<and> displayName (fst (extractContext loaded_at body rt)) =
          (case Partial_ModuleContext.displayName ctx of
             None \<Rightarrow> Some ''Anonymous User'' | Some d \<Rightarrow> Some d)
        \<and> timestamp (fst (extractContext loaded_at body rt)) =
          (case Partial_ModuleContext.timestamp ctx of None \<Rightarrow> clock rt | Some t \<Rightarrow> t)
        \<and> requestId (fst (extractContext loaded_at body rt)) =
          (case Partial_ModuleContext.requestId ctx of
             None \<Rightarrow> uuid_stream rt (drawn rt) | Some i \<Rightarrow> i)
        \<and> secrets (fst (extractContext loaded_at body rt)) =
          (case Partial_ModuleContext.secrets ctx of None \<Rightarrow> Map.empty | Some s \<Rightarrow> s))
   \<and> ((case body_context body of None \<Rightarrow> True
        | Some ctx \<Rightarrow> Partial_ModuleContext.requestId ctx = None) \<and>
       (case body_context body' of None \<Rightarrow> True
        | Some ctx \<Rightarrow> Partial_ModuleContext.requestId ctx = None) \<and>
       inj (uuid_stream rt) \<longrightarrow>
        requestId (fst (extractContext loaded_at body' (snd (extractContext loaded_at body rt))))
          \<noteq> requestId (fst (extractContext loaded_at body rt)))"
proof (intro conjI impI allI)
  assume "body_context body = None"
  then show "extractContext loaded_at body rt =
        (\<lparr>userId = ''anonymous'', conversationId = None, displayName = Some ''Anonymous User'',
          timestamp = clock rt, requestId = uuid_stream rt (drawn rt), secrets = Map.empty\<rparr>,
         rt\<lparr>drawn := Suc (drawn rt)\<rparr>)"
    by (rule extractContext_no_context)
next
  assume "body_context body =
        Some \<lparr>Partial_ModuleContext.userId = Some u,
              Partial_ModuleContext.conversationId = None,
              Partial_ModuleContext.displayName = None,
              Partial_ModuleContext.timestamp = None,
              Partial_ModuleContext.requestId = None,
              Partial_ModuleContext.secrets = None\<rparr>"
  then show "extractContext loaded_at body rt =
        (\<lparr>userId = u, conversationId = None, displayName = Some ''Anonymous User'',
          timestamp = clock rt, requestId = uuid_stream rt (drawn rt), secrets = Map.empty\<rparr>,
         rt\<lparr>drawn := Suc (drawn rt)\<rparr>)"
    by (simp add: extractContext_def DEFAULT_MODULE_CONTEXT_def crypto_randomUUID_def
        Date_now_def)
next
  assume h: "(case body_context body of None \<Rightarrow> True
        | Some ctx \<Rightarrow> Partial_ModuleContext.requestId ctx = None) \<and>
       (case body_context body' of None \<Rightarrow> True
        | Some ctx \<Rightarrow> Partial_ModuleContext.requestId ctx = None) \<and>
       inj (uuid_stream rt)"
  let ?rt' = "snd (extractContext loaded_at body rt)"
  from h have rt': "?rt' = rt\<lparr>drawn := Suc (drawn rt)\<rparr>"
    by (simp add: extractContext_runtime)
  from h have a: "requestId (fst (extractContext loaded_at body rt)) = uuid_stream rt (drawn rt)"
    by (simp add: extractContext_requestId_drawn)
  from h have "requestId (fst (extractContext loaded_at body' ?rt')) =
      uuid_stream ?rt' (drawn ?rt')"
    by (simp add: extractContext_requestId_drawn)
  then have b: "requestId (fst (extractContext loaded_at body' ?rt')) =
      uuid_stream rt (Suc (drawn rt))"
    by (simp add: rt')
  from h have "uuid_stream rt (Suc (drawn rt)) \<noteq> uuid_stream rt (drawn rt)"
    by (auto dest: injD)
  with a b show "requestId (fst (extractContext loaded_at body' ?rt'))
          \<noteq> requestId (fst (extractContext loaded_at body rt))"
    by simp
qed (simp_all add: extractContext_fields)

theorem extractContext_defaults_per_field_witness:
  "extractContext 0 body_without_context test_runtime =
     (\<lparr>userId = ''anonymous'', conversationId = None, displayName = Some ''Anonymous User'',
       timestamp = 1704067200000, requestId = ''req-'', secrets = Map.empty\<rparr>,
      test_runtime\<lparr>drawn := 1\<rparr>)
   \<and> extractContext 0 body_partial_context test_runtime =
     (\<lparr>userId = ''user_partial'', conversationId = None, displayName = Some ''Anonymous User'',
       timestamp = 1704067200000, requestId = ''req-'', secrets = Map.empty\<rparr>,
      test_runtime\<lparr>drawn := 1\<rparr>)
   \<and> requestId (fst (extractContext 0 body_partial_context
         (snd (extractContext 0 body_without_context test_runtime))))
       \<noteq> requestId (fst (extractContext 0 body_without_context test_runtime))"
proof -
  have none: "body_context body_without_context = None"
    by (simp add: body_without_context_def)
  have part: "body_context body_partial_context =
        Some \<lparr>Partial_ModuleContext.userId = Some ''user_partial'',
              Partial_ModuleContext.conversationId = None,
              Partial_ModuleContext.displayName = None,
              Partial_ModuleContext.timestamp = None,
              Partial_ModuleContext.requestId = None,
              Partial_ModuleContext.secrets = None\<rparr>"
    by (simp add: body_partial_context_def)
  have inj: "inj (uuid_stream test_runtime)"
    by (simp add: test_runtime_def inj_counter_uuid)
  have rt: "clock test_runtime = 1704067200000"
    "uuid_stream test_runtime (drawn test_runtime) = ''req-''"
    "Suc (drawn test_runtime) = 1"
    by (simp_all add: test_runtime_def)
  note a = extractContext_defaults_per_field
             [of body_without_context 0 test_runtime "''user_partial''" body_partial_context]
  note b = extractContext_defaults_per_field
             [of body_partial_context 0 test_runtime "''user_partial''" body_without_context]
  have "requestId (fst (extractContext 0 body_partial_context
         (snd (extractContext 0 body_without_context test_runtime))))
       \<noteq> requestId (fst (extractContext 0 body_without_context test_runtime))"
    by (rule a [THEN conjunct2, THEN conjunct2, THEN conjunct2, THEN mp])
       (simp add: none part inj)
  moreover from a none have "extractContext 0 body_without_context test_runtime =
     (\<lparr>userId = ''anonymous'', conversationId = None, displayName = Some ''Anonymous User'',
       timestamp = 1704067200000, requestId = ''req-'', secrets = Map.empty\<rparr>,
      test_runtime\<lparr>drawn := 1\<rparr>)"
    by (simp add: rt)
  moreover from b part have "extractContext 0 body_partial_context test_runtime =
     (\<lparr>userId = ''user_partial'', conversationId = None, displayName = Some ''Anonymous User'',
       timestamp = 1704067200000, requestId = ''req-'', secrets = Map.empty\<rparr>,
      test_runtime\<lparr>drawn := 1\<rparr>)"
    by (simp add: rt)
  ultimately show ?thesis by simp
qed

text \<open>
  Claim C9. The defaulting of \<open>extractContext\<close> is nullish-only: a field the context
  supplies is kept as it is, whatever its value. In particular a supplied \<^verbatim>\<open>userId\<close> of
  \<^verbatim>\<open>""\<close> stays \<^verbatim>\<open>""\<close> and a supplied \<^verbatim>\<open>timestamp\<close> of 0 stays 0.
\<close>

theorem extractContext_nullish_only:
  "body_context body = Some ctx \<Longrightarrow>
     (\<forall>u. Partial_ModuleContext.userId ctx = Some u \<longrightarrow>
        userId (fst (extractContext loaded_at body rt)) = u)
   \<and> (\<forall>d. Partial_ModuleContext.displayName ctx = Some d \<longrightarrow>
        displayName (fst (extractContext loaded_at body rt)) = Some d)
   \<and> (\<forall>t. Partial_ModuleContext.timestamp ctx = Some t \<longrightarrow>
        timestamp (fst (extractContext loaded_at body rt)) = t)
   \<and> (\<forall>i. Partial_ModuleContext.requestId ctx = Some i \<longrightarrow>
        requestId (fst (extractContext loaded_at body rt)) = i)
   \<and> (\<forall>s. Partial_ModuleContext.secrets ctx = Some s \<longrightarrow>
        secrets (fst (extractContext loaded_at body rt)) = s)"
  by (simp add: extractContext_fields)

theorem extractContext_nullish_only_witness:
  "userId (fst (extractContext 5 (body_partial_context\<lparr>body_context :=
       Some \<lparr>Partial_ModuleContext.userId = Some '''',
             Partial_ModuleContext.conversationId = None,
             Partial_ModuleContext.displayName = None,
             Partial_ModuleContext.timestamp = Some 0,
             Partial_ModuleContext.requestId = None,
             Partial_ModuleContext.secrets = None\<rparr>\<rparr>) test_runtime)) = ''''
   \<and> timestamp (fst (extractContext 5 (body_partial_context\<lparr>body_context :=
       Some \<lparr>Partial_ModuleContext.userId = Some '''',
             Partial_ModuleContext.conversationId = None,
             Partial_ModuleContext.displayName = None,
             Partial_ModuleContext.timestamp = Some 0,
             Partial_ModuleContext.requestId = None,
             Partial_ModuleContext.secrets = None\<rparr>\<rparr>) test_runtime)) = 0
   \<and> clock test_runtime \<noteq> 0"
  using extractContext_nullish_only [of "body_partial_context\<lparr>body_context :=
       Some \<lparr>Partial_ModuleContext.userId = Some '''',
             Partial_ModuleContext.conversationId = None,
             Partial_ModuleContext.displayName = None,
             Partial_ModuleContext.timestamp = Some 0,
             Partial_ModuleContext.requestId = None,
             Partial_ModuleContext.secrets = None\<rparr>\<rparr>"
       "\<lparr>Partial_ModuleContext.userId = Some '''',
             Partial_ModuleContext.conversationId = None,
             Partial_ModuleContext.displayName = None,
             Partial_ModuleContext.timestamp = Some 0,
             Partial_ModuleContext.requestId = None,
             Partial_ModuleContext.secrets = None\<rparr>" 5 test_runtime]
  by (simp add: test_runtime_def)




section \<open>Properties of the validators and the response schema\<close>

lemma those_None_iff: "those xs = None \<longleftrightarrow> None \<in> set xs"
  by (induction xs) (auto split: option.splits)

lemma update_fresh: "k \<notin> fst ` set al \<Longrightarrow> AList.update k v al = al @ [(k, v)]"
  by (induction al) auto

lemma js_spread_disjoint:
  "distinct (map fst props) \<Longrightarrow> fst ` set props \<inter> fst ` set base = {} \<Longrightarrow>
   js_spread base props = base @ props"
proof (induction props arbitrary: base)
  case Nil
  then show ?case by (simp add: js_spread_def)
next
  case (Cons p props)
  obtain k v where p: "p = (k, v)" by (cases p)
  from Cons.prems p have fresh: "k \<notin> fst ` set base" by auto
  from Cons.prems p have "distinct (map fst props)"
    and "fst ` set props \<inter> fst ` set (base @ [(k, v)]) = {}"
    by auto
  then have "js_spread (base @ [(k, v)]) props = (base @ [(k, v)]) @ props"
    by (rule Cons.IH)
  with fresh p show ?case by (simp add: js_spread_def update_fresh)
qed

lemma z_object_accepts_iff:
  "z_object shape (JObj data) \<noteq> None \<longleftrightarrow> (\<forall>(k, sch) \<in> set shape. sch (js_get data k) \<noteq> None)"
  by (force simp: z_object_def those_None_iff image_iff)

text \<open>
  Claim C7, as amended. For every payload shape (an object, so with one entry per key)
  that does not itself declare a \<^verbatim>\<open>success\<close> field, validation against \<open>SuccessResponseSchema\<close> is decided by the branch
  that matches the literal \<^verbatim>\<open>success\<close> value, and by that branch alone. An object with
  \<^verbatim>\<open>success: true\<close> gets the result of the first branch, and is accepted exactly when
  every payload field's schema accepts the value under its key (so it is accepted with all
  payload fields, and rejected when a required one is missing). An object with
  \<^verbatim>\<open>success: false\<close> gets the result of the second branch, and is accepted exactly when
  its \<^verbatim>\<open>error\<close> is a string.
\<close>

theorem SuccessResponseSchema_branches:
  assumes "distinct (map fst shape)" and "''success'' \<notin> fst ` set shape"
  shows
    "(js_get data ''success'' = JBool True \<longrightarrow>
        SuccessResponseSchema shape (JObj data) =
          z_object ((''success'', z_literal (JBool True)) # shape) (JObj data)
        \<and> (SuccessResponseSchema shape (JObj data) \<noteq> None \<longleftrightarrow>
             (\<forall>(k, sch) \<in> set shape. sch (js_get data k) \<noteq> None)))
     \<and> (js_get data ''success'' = JBool False \<longrightarrow>
        SuccessResponseSchema shape (JObj data) =
          z_object [(''success'', z_literal (JBool False)), (''error'', z_string)] (JObj data)
        \<and> (SuccessResponseSchema shape (JObj data) \<noteq> None \<longleftrightarrow>
             (\<exists>e. js_get data ''error'' = JStr e)))"
proof -
  let ?A = "z_object ((''success'', z_literal (JBool True)) # shape)"
  let ?B = "z_object [(''success'', z_literal (JBool False)), (''error'', z_string)]"
  from assms have "js_spread [(''success'', z_literal (JBool True))] shape =
      (''success'', z_literal (JBool True)) # shape"
    by (simp add: js_spread_disjoint)
  then have S: "SuccessResponseSchema shape (JObj data) =
      (case ?A (JObj data) of Some out \<Rightarrow> Some out | None \<Rightarrow> ?B (JObj data))"
    by (simp add: SuccessResponseSchema_def split: option.splits)
  have A: "?A (JObj data) \<noteq> None \<longleftrightarrow>
      js_get data ''success'' = JBool True \<and> (\<forall>(k, sch) \<in> set shape. sch (js_get data k) \<noteq> None)"
    using z_object_accepts_iff [of "(''success'', z_literal (JBool True)) # shape" data]
    by (simp add: z_literal_def)
  have B: "?B (JObj data) \<noteq> None \<longleftrightarrow>
      js_get data ''success'' = JBool False \<and> (\<exists>e. js_get data ''error'' = JStr e)"
    using z_object_accepts_iff
            [of "[(''success'', z_literal (JBool False)), (''error'', z_string)]" data]
    by (auto simp: z_literal_def z_string_def split: js_value.splits)
  show ?thesis
  proof (intro conjI impI)
    assume t: "js_get data ''success'' = JBool True"
    with B have "?B (JObj data) = None" by simp
    with S show "SuccessResponseSchema shape (JObj data) = ?A (JObj data)"
      by (simp split: option.splits)
    with A t show "SuccessResponseSchema shape (JObj data) \<noteq> None \<longleftrightarrow>
        (\<forall>(k, sch) \<in> set shape. sch (js_get data k) \<noteq> None)"
      by simp
  next
    assume f: "js_get data ''success'' = JBool False"
    with A have "?A (JObj data) = None" by simp
    with S show "SuccessResponseSchema shape (JObj data) = ?B (JObj data)"
      by simp
    with B f show "SuccessResponseSchema shape (JObj data) \<noteq> None \<longleftrightarrow>
        (\<exists>e. js_get data ''error'' = JStr e)"
      by simp
  qed
qed


theorem SuccessResponseSchema_branches_witness:
  "SuccessResponseSchema emailResponse_shape
     (JObj [(''success'', JBool True), (''messageId'', JStr ''msg_123''),
            (''sentAt'', JStr ''2024-01-15T10:30:00Z'')]) \<noteq> None
   \<and> SuccessResponseSchema emailResponse_shape
     (JObj [(''success'', JBool False), (''error'', JStr ''Failed to send email'')]) \<noteq> None
   \<and> SuccessResponseSchema emailResponse_shape
     (JObj [(''success'', JBool True), (''messageId'', JStr ''msg_123'')]) = None
   \<and> SuccessResponseSchema emailResponse_shape (JObj [(''success'', JBool False)]) = None"
proof -
  have shape: "distinct (map fst emailResponse_shape)"
    "''success'' \<notin> fst ` set emailResponse_shape"
    by (simp_all add: emailResponse_shape_def)
  note br = SuccessResponseSchema_branches [OF shape]
  note on_true = br [THEN conjunct1, THEN mp, THEN conjunct2]
  note on_false = br [THEN conjunct2, THEN mp, THEN conjunct2]
  have "SuccessResponseSchema emailResponse_shape
     (JObj [(''success'', JBool True), (''messageId'', JStr ''msg_123''),
            (''sentAt'', JStr ''2024-01-15T10:30:00Z'')]) \<noteq> None"
    using on_true [of "[(''success'', JBool True), (''messageId'', JStr ''msg_123''),
            (''sentAt'', JStr ''2024-01-15T10:30:00Z'')]"]
    by (simp add: js_get_def emailResponse_shape_def z_string_def)
  moreover have "SuccessResponseSchema emailResponse_shape
     (JObj [(''success'', JBool False), (''error'', JStr ''Failed to send email'')]) \<noteq> None"
    using on_false [of "[(''success'', JBool False), (''error'', JStr ''Failed to send email'')]"]
    by (simp add: js_get_def)
  moreover have "SuccessResponseSchema emailResponse_shape
     (JObj [(''success'', JBool True), (''messageId'', JStr ''msg_123'')]) = None"
    using on_true [of "[(''success'', JBool True), (''messageId'', JStr ''msg_123'')]"]
    by (simp add: js_get_def emailResponse_shape_def z_string_def)
  moreover have "SuccessResponseSchema emailResponse_shape (JObj [(''success'', JBool False)]) = None"
    using on_false [of "[(''success'', JBool False)]"]
    by (simp add: js_get_def)
  ultimately show ?thesis by simp
qed

text \<open>
  The claim as first stated is about every payload shape. A shape that declares
  \<^verbatim>\<open>success\<close> itself replaces the literal of the first branch, since the shape is spread
  after it: with the payload shape \<^verbatim>\<open>{success: z.literal(false)}\<close> the object
  \<^verbatim>\<open>{success: false}\<close>, which has no \<^verbatim>\<open>error\<close>, is accepted.
\<close>

theorem SuccessResponseSchema_success_key_counterexample:
  "SuccessResponseSchema [(''success'', z_literal (JBool False))]
     (JObj [(''success'', JBool False)]) \<noteq> None"
  by (simp add: SuccessResponseSchema_def z_object_def js_spread_def z_literal_def js_get_def)

lemma those_emails:
  "those (map (z_string_email is_email) xs) =
     (if \<forall>x \<in> set xs. \<exists>e. x = JStr e \<and> is_email e then Some xs else None)"
proof (induction xs)
  case Nil
  then show ?case by simp
next
  case (Cons x xs)
  then show ?case by (cases x) (auto simp: z_string_email_def)
qed

lemma z_array_emails:
  "z_array (z_string_email is_email) (JArr xs) =
     (if \<forall>x \<in> set xs. \<exists>e. x = JStr e \<and> is_email e then Some (JArr xs) else None)"
  by (simp add: z_array_def those_emails)

lemma String_split_not_Nil: "String_split sep s \<noteq> []"
  by (induction s) (auto split: list.splits)

lemma String_split_no_sep: "seg \<in> set (String_split sep s) \<Longrightarrow> sep \<notin> set seg"
  by (induction s arbitrary: seg) (auto split: if_splits list.splits)

lemma String_split_join:
  "concat (map (\<lambda>seg. seg @ [sep]) (String_split sep s)) = s @ [sep]"
  by (induction s) (auto simp: String_split_not_Nil split: list.splits)

lemma last_dropWhile: "dropWhile P xs \<noteq> [] \<Longrightarrow> last (dropWhile P xs) = last xs"
  by (induction xs) auto

lemma String_trim_decompose:
  "\<exists>l r. s = l @ String_trim s @ r \<and> list_all is_WhiteSpace l \<and> list_all is_WhiteSpace r"
proof -
  let ?d = "dropWhile is_WhiteSpace s"
  let ?l = "takeWhile is_WhiteSpace s"
  let ?r = "rev (takeWhile is_WhiteSpace (rev ?d))"
  have "?d = rev (takeWhile is_WhiteSpace (rev ?d) @ dropWhile is_WhiteSpace (rev ?d))"
    by (simp only: takeWhile_dropWhile_id rev_rev_ident)
  then have "?d = String_trim s @ ?r"
    by (simp only: rev_append String_trim_def)
  moreover have "s = ?l @ ?d" by simp
  ultimately have "s = ?l @ String_trim s @ ?r" by simp
  moreover have "list_all is_WhiteSpace ?l"
    by (auto simp: list_all_iff dest: set_takeWhileD)
  moreover have "list_all is_WhiteSpace ?r"
    by (auto simp: list_all_iff dest: set_takeWhileD)
  ultimately show ?thesis by blast
qed

lemma String_trim_ends:
  "String_trim s = [] \<or>
   \<not> is_WhiteSpace (hd (String_trim s)) \<and> \<not> is_WhiteSpace (last (String_trim s))"
proof (cases "String_trim s = []")
  case True
  then show ?thesis by simp
next
  case False
  let ?d = "dropWhile is_WhiteSpace s"
  let ?e = "dropWhile is_WhiteSpace (rev ?d)"
  from False have e: "?e \<noteq> []" by (simp add: String_trim_def)
  have d: "?d \<noteq> []"
  proof
    assume "?d = []"
    then have "?e = []" by (simp only: rev.simps dropWhile.simps)
    with e show False by contradiction
  qed
  have "last (String_trim s) = hd ?e"
    using e by (simp add: String_trim_def last_rev)
  moreover have "\<not> is_WhiteSpace (hd ?e)"
    using e by (rule hd_dropWhile)
  moreover have "hd (String_trim s) = last ?e"
    using e by (simp add: String_trim_def hd_rev)
  moreover have "last ?e = last (rev ?d)"
    using e by (rule last_dropWhile)
  moreover have "last (rev ?d) = hd ?d"
    using d by (simp add: last_rev)
  moreover have "\<not> is_WhiteSpace (hd ?d)"
    using d by (rule hd_dropWhile)
  ultimately show ?thesis by simp
qed

text \<open>
  Claim C8. \<open>emailList\<close> accepts an array exactly when each element is a string that is a
  valid email, and returns the array. It accepts a string exactly when every segment
  between commas, trimmed, is a valid email, and returns the array of the trimmed segments;
  so it rejects whenever a segment fails the email check. The segments are those of the
  input: joined by commas they give the input back, and none contains a comma. Trimming
  removes white space on both sides and nothing else, and what it leaves neither begins nor
  ends with white space. In particular \<^verbatim>\<open>"a@example.com, b@example.com"\<close> is normalized to
  \<^verbatim>\<open>["a@example.com", "b@example.com"]\<close> when both are valid emails, and
  \<^verbatim>\<open>"valid@example.com, not-an-email"\<close> is rejected when \<^verbatim>\<open>not-an-email\<close> is not.
\<close>

theorem emailList_normalizes:
  "emailList is_email (JArr xs) =
     (if \<forall>x \<in> set xs. \<exists>e. x = JStr e \<and> is_email e then Some (JArr xs) else None)
   \<and> emailList is_email (JStr s) =
     (if list_all is_email (map String_trim (String_split (CHR '','') s))
      then Some (JArr (map JStr (map String_trim (String_split (CHR '','') s))))
      else None)
   \<and> concat (map (\<lambda>seg. seg @ '','') (String_split (CHR '','') s)) = s @ '',''
   \<and> (\<forall>seg \<in> set (String_split (CHR '','') s).
        CHR '','' \<notin> set seg
        \<and> (\<exists>l r. seg = l @ String_trim seg @ r
                 \<and> list_all is_WhiteSpace l \<and> list_all is_WhiteSpace r)
        \<and> (String_trim seg = [] \<or>
            \<not> is_WhiteSpace (hd (String_trim seg)) \<and> \<not> is_WhiteSpace (last (String_trim seg))))
   \<and> (is_email ''a@example.com'' \<and> is_email ''b@example.com'' \<longrightarrow>
        emailList is_email (JStr ''a@example.com, b@example.com'') =
          Some (JArr [JStr ''a@example.com'', JStr ''b@example.com'']))
   \<and> (\<not> is_email ''not-an-email'' \<longrightarrow>
        emailList is_email (JStr ''valid@example.com, not-an-email'') = None)"
proof -
  have arr: "emailList is_email (JArr xs) =
     (if \<forall>x \<in> set xs. \<exists>e. x = JStr e \<and> is_email e then Some (JArr xs) else None)"
    by (simp add: emailList_def z_or_def z_pipe_def z_string_transform_def z_array_emails)
  have str: "emailList is_email (JStr t) =
     (if list_all is_email (map String_trim (String_split (CHR '','') t))
      then Some (JArr (map JStr (map String_trim (String_split (CHR '','') t))))
      else None)" for t
  proof -
    have "z_array (z_string_email is_email) (JStr t) = None"
      by (simp add: z_array_def)
    moreover have "z_array (z_string_email is_email)
        (JArr (map (\<lambda>e. JStr (String_trim e)) (String_split (CHR '','') t))) =
      (if list_all is_email (map String_trim (String_split (CHR '','') t))
       then Some (JArr (map JStr (map String_trim (String_split (CHR '','') t))))
       else None)"
      by (simp add: z_array_emails list_all_iff comp_def)
    ultimately show ?thesis
      by (simp add: emailList_def z_or_def z_pipe_def z_string_transform_def)
  qed
  have ex1: "map String_trim (String_split (CHR '','') ''a@example.com, b@example.com'') =
      [''a@example.com'', ''b@example.com'']"
    by (simp add: String_trim_def is_WhiteSpace_def)
  have ex2: "map String_trim (String_split (CHR '','') ''valid@example.com, not-an-email'') =
      [''valid@example.com'', ''not-an-email'']"
    by (simp add: String_trim_def is_WhiteSpace_def)
  show ?thesis
    using String_split_join [of "CHR '',''" s]
    by (simp add: arr str ex1 ex2 String_split_no_sep String_trim_decompose String_trim_ends
        del: String_split.simps)
qed

theorem emailList_normalizes_witness:
  "emailList (\<lambda>e. CHR ''@'' \<in> set e) (JStr ''a@example.com, b@example.com'') =
     Some (JArr [JStr ''a@example.com'', JStr ''b@example.com''])
   \<and> emailList (\<lambda>e. CHR ''@'' \<in> set e) (JStr ''valid@example.com, not-an-email'') = None
   \<and> emailList (\<lambda>e. CHR ''@'' \<in> set e) (JArr [JStr ''a@example.com'', JStr ''b@example.com'']) =
     Some (JArr [JStr ''a@example.com'', JStr ''b@example.com''])
   \<and> emailList (\<lambda>e. CHR ''@'' \<in> set e)
         (JStr (''a@example.com,'' @ [CHR 0xA0] @ ''b@example.com'' @ [CHR 0xA0, CHR 0x09])) =
     Some (JArr [JStr ''a@example.com'', JStr ''b@example.com''])"
proof -
  let ?is_email = "\<lambda>e. CHR ''@'' \<in> set e"
  let ?nbsp = "''a@example.com,'' @ [CHR 0xA0] @ ''b@example.com'' @ [CHR 0xA0, CHR 0x09]"
  have segs: "map String_trim (String_split (CHR '','') ?nbsp) =
      [''a@example.com'', ''b@example.com'']"
    by (simp add: String_trim_def is_WhiteSpace_def)
  have "emailList ?is_email (JStr ?nbsp) =
      Some (JArr [JStr ''a@example.com'', JStr ''b@example.com''])"
    using emailList_normalizes [of ?is_email "[]" ?nbsp]
    by (simp only: segs) simp
  then show ?thesis
    using emailList_normalizes
            [of ?is_email "[JStr ''a@example.com'', JStr ''b@example.com'']" "''x''"]
    by simp
qed

end
